theory Spec2Isabelle
  imports Complex_Main
begin

section \<open>Values, errors and the numeric helpers the engine calls\<close>

text \<open>
  The engine of \<^verbatim>\<open>fdest/fdest.py\<close> is one class, \<^verbatim>\<open>FgcmDesTransmission\<close>. Its methods are
  embedded as functions from the object's state to an outcome and the state the call leaves
  behind: a Python exception is \<open>Inl\<close> of its class, a normal return is \<open>Inr\<close> of the value,
  and the attribute assignments made before an exception stay in the returned state.
  Floating-point numbers are read as reals; a one-dimensional array is a list.
\<close>

text \<open>
  The \<^verbatim>\<open>ValueError\<close>s are told apart by their message: the three that the engine raises
  itself, at line 91, at line 95 and at lines 98 and 131, each with the value it names, and
  those raised inside numpy and scipy.
\<close>

datatype value_error =
    Exposure_not_found int
  | Ccdnum_out_of_range int
  | Band_not_in_table string
  | Library_error

datatype error = TypeError | AttributeError | ValueError value_error | KeyError | IndexError

definition bnd :: "error + 'a \<Rightarrow> ('a \<Rightarrow> error + 'b) \<Rightarrow> error + 'b" where
  "bnd m f = (case m of Inl e \<Rightarrow> Inl e | Inr x \<Rightarrow> f x)"

text \<open>
  One extension of the instrument file, as \<^verbatim>\<open>hdu.read()\<close> returns it: the columns
  \<^verbatim>\<open>lambda\<close>, \<^verbatim>\<open>throughput_avg\<close> and \<^verbatim>\<open>throughput_ccd\<close>. The source reads the matrix
  \<^verbatim>\<open>throughput_ccd\<close> only through \<^verbatim>\<open>.shape[1]\<close> and \<^verbatim>\<open>[:, j]\<close>, so it is kept as the list of
  its columns: \<^verbatim>\<open>.shape[1]\<close> is the length of that list and \<^verbatim>\<open>[:, j]\<close> its \<open>j\<close>-th entry.
\<close>

record ccd_table =
  lambda_col :: "real list"
  throughput_avg :: "real list"
  throughput_ccd :: "real list list"

text \<open>
  The atmosphere table: the rows of the field \<^verbatim>\<open>throughput\<close> and the column \<^verbatim>\<open>expnum\<close>.
\<close>

record atm_table =
  throughput :: "real list list"
  expnum :: "int list"

text \<open>
  \<^verbatim>\<open>scipy.interpolate.interp1d(x, y)\<close> with its defaults: linear, points sorted by \<open>x\<close>, and an
  error for a query outside the measured range. The constructor refuses columns of different
  lengths and an empty column.
\<close>

record interp =
  ix :: "real list"
  iy :: "real list"

definition interp1d :: "real list \<Rightarrow> real list \<Rightarrow> error + interp" where
  "interp1d x y =
     (if length x \<noteq> length y \<or> x = [] then Inl (ValueError Library_error)
      else Inr \<lparr>ix = x, iy = y\<rparr>)"

text \<open>
  The value at \<open>v\<close>, between the last measured point at or below \<open>v\<close> and the next one; at
  a measured wavelength it is the value measured there, the later one if the wavelength is
  repeated. It is used only for \<open>v\<close> inside the measured range.
\<close>

fun lin_interp :: "(real \<times> real) list \<Rightarrow> real \<Rightarrow> real" where
  "lin_interp [] v = 0"
| "lin_interp [(x0, y0)] v = y0"
| "lin_interp ((x0, y0) # (x1, y1) # ps) v =
     (if x1 \<le> v then lin_interp ((x1, y1) # ps) v
      else if x0 = v then y0
      else y0 + (y1 - y0) / (x1 - x0) * (v - x0))"

definition in_bounds :: "interp \<Rightarrow> real \<Rightarrow> bool" where
  "in_bounds f v = (Min (set (ix f)) \<le> v \<and> v \<le> Max (set (ix f)))"

text \<open>
  \<^verbatim>\<open>ifunc(w)\<close>. The argument is the attribute \<^verbatim>\<open>self._wavelengths\<close>, which is Python's
  \<^verbatim>\<open>None\<close> until a grid is stored; scipy refuses \<^verbatim>\<open>None\<close>, an array of objects, with a
  \<^verbatim>\<open>ValueError\<close>, as it does a wavelength outside the measured range.
\<close>

definition interp_call :: "interp \<Rightarrow> real list option \<Rightarrow> error + real list" where
  "interp_call f wopt =
     (case wopt of
        None \<Rightarrow> Inl (ValueError Library_error)
      | Some w \<Rightarrow>
          if list_all (in_bounds f) w
          then Inr (map (lin_interp (sort_key fst (zip (ix f) (iy f)))) w)
          else Inl (ValueError Library_error))"

text \<open>
  \<^verbatim>\<open>ifunc(self._wavelengths, j)\<close> of line 52: the interpolant's call takes one argument, so a
  call with two is a \<^verbatim>\<open>TypeError\<close>, whatever the arguments are.
\<close>

definition interp_call2 :: "interp \<Rightarrow> real list option \<Rightarrow> nat \<Rightarrow> error + real list" where
  "interp_call2 f wopt j = Inl TypeError"

text \<open>
  \<^verbatim>\<open>np.clip(a, lo, hi)\<close>, and \<^verbatim>\<open>np.clip(a)\<close> of line 52, which lacks both bounds: a
  \<^verbatim>\<open>TypeError\<close> where numpy requires them. Its argument, the call above, has raised before.
\<close>

definition np_clip :: "real list \<Rightarrow> real \<Rightarrow> real \<Rightarrow> real list" where
  "np_clip a lo hi = map (\<lambda>x. min hi (max lo x)) a"

definition np_clip1 :: "real list \<Rightarrow> error + real list" where
  "np_clip1 a = Inl TypeError"

text \<open>
  \<^verbatim>\<open>np.allclose(c)\<close> of line 35: the function has two required arrays \<open>a\<close> and \<open>b\<close>; called
  with the single array \<^verbatim>\<open>wavelengths == self._wavelengths\<close> it is a \<^verbatim>\<open>TypeError\<close>.
\<close>

definition np_allclose1 :: "bool list \<Rightarrow> error + bool" where
  "np_allclose1 c = Inl TypeError"

text \<open>The product \<^verbatim>\<open>a*b\<close> of two one-dimensional arrays, with numpy's broadcasting.\<close>

definition np_mul :: "real list \<Rightarrow> real list \<Rightarrow> error + real list" where
  "np_mul a b =
     (if length a = length b then Inr (map2 (*) a b)
      else if length a = 1 then Inr (map ((*) (hd a)) b)
      else if length b = 1 then Inr (map (\<lambda>x. x * hd b) a)
      else Inl (ValueError Library_error))"

text \<open>A Python dictionary with string keys, in insertion order.\<close>

fun dict_set :: "string \<Rightarrow> 'v \<Rightarrow> (string \<times> 'v) list \<Rightarrow> (string \<times> 'v) list" where
  "dict_set k v [] = [(k, v)]"
| "dict_set k v ((k', v') # d) = (if k = k' then (k, v) # d else (k', v') # dict_set k v d)"

section \<open>The state of an engine\<close>

text \<open>
  The attributes of an instance. \<open>None\<close> in \<open>ccd_data\<close>, \<open>atm_data\<close>, \<open>nccd\<close>, \<open>wavelengths\<close> and
  \<open>std_ifunc\<close> is Python's \<^verbatim>\<open>None\<close>; \<open>None\<close> in the two caches means that the attribute has
  not been assigned yet (no statement of \<^verbatim>\<open>__init__\<close> assigns them), so that reading it is an
  \<^verbatim>\<open>AttributeError\<close>. A value of the dictionary \<open>ccd_data\<close> is what \<^verbatim>\<open>hdu.read()\<close> returned:
  a table, or \<^verbatim>\<open>None\<close> for a unit without data. A cached per-detector matrix is kept as the
  list of its columns.
\<close>

record engine =
  ccd_data :: "(string \<times> ccd_table option) list option"
  atm_data :: "atm_table option"
  bands :: "string list"
  nccd :: "nat option"
  atm_wavelengths :: "real list"
  atm_std :: "real list"
  wavelengths :: "real list option"
  std_ifunc :: "interp option"
  band_tput_interp :: "(string \<times> real list) list option"
  band_ccd_interp :: "(string \<times> real list list) list option"

definition blank :: engine where
  "blank = \<lparr>ccd_data = None, atm_data = None, bands = [], nccd = None,
            atm_wavelengths = [], atm_std = [], wavelengths = None, std_ifunc = None,
            band_tput_interp = None, band_ccd_interp = None\<rparr>"

section \<open>Construction\<close>

text \<open>
  \<^verbatim>\<open>_read_ccd_file\<close> (lines 137 to 155). The file is given as the list of the units that the
  loop of line 149 visits, each with its name and with what \<^verbatim>\<open>hdu.read()\<close> returns for it:
  a table, or \<^verbatim>\<open>None\<close> for a unit without data. A FITS file begins with its primary unit,
  whose name is empty and which holds no data when the file is a file of tables. Line 155
  subscripts the value stored at line 152, a \<^verbatim>\<open>TypeError\<close> when that value is \<^verbatim>\<open>None\<close>. The
  helper has no \<^verbatim>\<open>return\<close> statement: where it returns, its value is \<^verbatim>\<open>None\<close>.
\<close>

definition band_of_extname :: "string \<Rightarrow> string" where
  "band_of_extname n = takeWhile (\<lambda>c. c \<noteq> CHR ''_'') n"

fun read_hdus :: "(string \<times> ccd_table option) list \<Rightarrow> engine \<Rightarrow> (error + unit) \<times> engine" where
  "read_hdus [] s = (Inr (), s)"
| "read_hdus ((n, d) # hs) s =
     (case ccd_data s of
        None \<Rightarrow> (Inl TypeError, s)
      | Some dict \<Rightarrow>
          let s1 = s\<lparr>ccd_data := Some (dict_set (band_of_extname n) d dict),
                     bands := bands s @ [band_of_extname n]\<rparr> in
          (case nccd s1 of
             Some k \<Rightarrow> read_hdus hs s1
           | None \<Rightarrow>
               (case d of
                  None \<Rightarrow> (Inl TypeError, s1)
                | Some t \<Rightarrow> read_hdus hs (s1\<lparr>nccd := Some (length (throughput_ccd t))\<rparr>))))"

definition read_ccd_file ::
  "(string \<times> ccd_table option) list \<Rightarrow> engine \<Rightarrow>
   (error + (string \<times> ccd_table option) list option) \<times> engine" where
  "read_ccd_file hdus s =
     (case read_hdus hdus (s\<lparr>ccd_data := Some [], bands := [], nccd := None\<rparr>) of
        (Inl e, s1) \<Rightarrow> (Inl e, s1)
      | (Inr u, s1) \<Rightarrow> (Inr None, s1))"

text \<open>
  \<^verbatim>\<open>atm_data[2:, :]\<close> of line 171. What \<^verbatim>\<open>fitsio.read\<close> returns for a table is an array of
  records with one dimension, the rows; an index with two entries is an \<^verbatim>\<open>IndexError\<close>,
  whatever the table holds.
\<close>

definition np_index_rows_cols :: "atm_table \<Rightarrow> error + atm_table" where
  "np_index_rows_cols a = Inl IndexError"

text \<open>
  \<^verbatim>\<open>_read_atm_file\<close> (lines 157 to 171). Rows 0 and 1 of \<^verbatim>\<open>throughput\<close> must exist
  (an \<^verbatim>\<open>IndexError\<close> otherwise). This helper too has no \<^verbatim>\<open>return\<close> statement.
\<close>

definition read_atm_file :: "atm_table \<Rightarrow> engine \<Rightarrow> (error + atm_table option) \<times> engine" where
  "read_atm_file a s =
     (if length (throughput a) < 1 then (Inl IndexError, s)
      else let s1 = s\<lparr>atm_wavelengths := throughput a ! 0\<rparr> in
        if length (throughput a) < 2 then (Inl IndexError, s1)
        else let s2 = s1\<lparr>atm_std := throughput a ! 1\<rparr> in
          (case np_index_rows_cols a of
             Inl e \<Rightarrow> (Inl e, s2)
           | Inr rest \<Rightarrow> (Inr None, s2\<lparr>atm_data := Some rest\<rparr>)))"

text \<open>
  \<^verbatim>\<open>__init__\<close> (lines 16 to 21): each of the first two statements assigns the value of a
  reader to the attribute that the reader fills; an exception in a reader leaves
  \<^verbatim>\<open>__init__\<close>, and no object is returned.
\<close>

definition init :: "(string \<times> ccd_table option) list \<Rightarrow> atm_table \<Rightarrow> error + engine" where
  "init hdus a =
     (case read_ccd_file hdus blank of
        (Inl e, s1) \<Rightarrow> Inl e
      | (Inr r1, s1) \<Rightarrow>
          (case read_atm_file a (s1\<lparr>ccd_data := r1\<rparr>) of
             (Inl e, s2) \<Rightarrow> Inl e
           | (Inr r2, s2) \<Rightarrow> Inr (s2\<lparr>atm_data := r2, wavelengths := None, std_ifunc := None\<rparr>)))"

section \<open>The wavelength grid and the interpolation cache\<close>

text \<open>
  \<^verbatim>\<open>self._ccd_data[band]['lambda']\<close>, up to the column name: subscripting \<^verbatim>\<open>None\<close>, be it
  the dictionary or the value stored for the band, or a key the dictionary lacks.
\<close>

definition ccd_lookup :: "engine \<Rightarrow> string \<Rightarrow> error + ccd_table" where
  "ccd_lookup s band =
     (case ccd_data s of
        None \<Rightarrow> Inl TypeError
      | Some d \<Rightarrow>
          (case map_of d band of
             None \<Rightarrow> Inl KeyError
           | Some None \<Rightarrow> Inl TypeError
           | Some (Some t) \<Rightarrow> Inr t))"

text \<open>\<^verbatim>\<open>m[:, j]\<close> on a matrix kept as its columns.\<close>

definition np_col :: "real list list \<Rightarrow> nat \<Rightarrow> error + real list" where
  "np_col m j = (if j < length m then Inr (m ! j) else Inl IndexError)"

text \<open>Lines 45 to 47: the clipped average throughput of one band on the grid.\<close>

definition tput_line :: "string \<Rightarrow> engine \<Rightarrow> error + real list" where
  "tput_line band s =
     bnd (ccd_lookup s band) (\<lambda>t.
     bnd (interp1d (lambda_col t) (throughput_avg t)) (\<lambda>ifunc.
     bnd (interp_call ifunc (wavelengths s)) (\<lambda>v.
     Inr (np_clip v 0 (10 ^ 100)))))"

text \<open>Lines 50 to 52: the value assigned to column \<open>j\<close> of the band's matrix.\<close>

definition ccd_line :: "string \<Rightarrow> nat \<Rightarrow> engine \<Rightarrow> error + real list" where
  "ccd_line band j s =
     bnd (ccd_lookup s band) (\<lambda>t.
     bnd (np_col (throughput_ccd t) j) (\<lambda>c.
     bnd (interp1d (lambda_col t) c) (\<lambda>ifunc.
     bnd (interp_call2 ifunc (wavelengths s) j) (\<lambda>v.
     np_clip1 v))))"

text \<open>\<^verbatim>\<open>self._band_ccd_interp[band][:, j] = c\<close>.\<close>

definition set_col ::
  "string \<Rightarrow> nat \<Rightarrow> real list \<Rightarrow> engine \<Rightarrow> (error + unit) \<times> engine" where
  "set_col band j c s =
     (case band_ccd_interp s of
        None \<Rightarrow> (Inl AttributeError, s)
      | Some d \<Rightarrow>
          (case map_of d band of
             None \<Rightarrow> (Inl KeyError, s)
           | Some m \<Rightarrow>
               if j < length m
               then (Inr (), s\<lparr>band_ccd_interp := Some (dict_set band (m[j := c]) d)\<rparr>)
               else (Inl IndexError, s)))"

text \<open>The loop of lines 49 to 52 over \<^verbatim>\<open>range(self.nccd)\<close>.\<close>

fun ccd_loop :: "string \<Rightarrow> nat list \<Rightarrow> engine \<Rightarrow> (error + unit) \<times> engine" where
  "ccd_loop band [] s = (Inr (), s)"
| "ccd_loop band (j # js) s =
     (case ccd_line band j s of
        Inl e \<Rightarrow> (Inl e, s)
      | Inr c \<Rightarrow>
          (case set_col band j c s of
             (Inl e, s1) \<Rightarrow> (Inl e, s1)
           | (Inr u, s1) \<Rightarrow> ccd_loop band js s1))"

text \<open>The body of the loop of lines 44 to 52 for one band.\<close>

definition band_body :: "string \<Rightarrow> engine \<Rightarrow> (error + unit) \<times> engine" where
  "band_body band s =
     (case tput_line band s of
        Inl e \<Rightarrow> (Inl e, s)
      | Inr v \<Rightarrow>
          (case band_tput_interp s of
             None \<Rightarrow> (Inl AttributeError, s)
           | Some dt \<Rightarrow>
               let s1 = s\<lparr>band_tput_interp := Some (dict_set band v dt)\<rparr> in
               (case wavelengths s1 of
                  None \<Rightarrow> (Inl AttributeError, s1)
                | Some w \<Rightarrow>
                    (case nccd s1 of
                       None \<Rightarrow> (Inl TypeError, s1)
                     | Some n \<Rightarrow>
                         (case band_ccd_interp s1 of
                            None \<Rightarrow> (Inl AttributeError, s1)
                          | Some dc \<Rightarrow>
                              ccd_loop band [0..<n]
                                (s1\<lparr>band_ccd_interp :=
                                      Some (dict_set band
                                              (replicate n (replicate (length w) 0)) dc)\<rparr>))))))"

fun band_loop :: "string list \<Rightarrow> engine \<Rightarrow> (error + unit) \<times> engine" where
  "band_loop [] s = (Inr (), s)"
| "band_loop (b # bs) s =
     (case band_body b s of
        (Inl e, s1) \<Rightarrow> (Inl e, s1)
      | (Inr u, s1) \<Rightarrow> band_loop bs s1)"

text \<open>Lines 39 to 52: store the grid, empty both caches, rebuild them band by band.\<close>

definition rebuild :: "real list \<Rightarrow> engine \<Rightarrow> (error + unit) \<times> engine" where
  "rebuild w s =
     band_loop (bands s)
       (s\<lparr>wavelengths := Some w, band_tput_interp := Some [], band_ccd_interp := Some []\<rparr>)"

text \<open>
  \<^verbatim>\<open>set_wavelengths\<close> (lines 23 to 52). With a grid stored and the new one of the same length,
  line 35 evaluates \<^verbatim>\<open>np.allclose\<close> on the element-wise comparison of the two.
\<close>

definition set_wavelengths :: "real list \<Rightarrow> engine \<Rightarrow> (error + unit) \<times> engine" where
  "set_wavelengths w s =
     (case wavelengths s of
        None \<Rightarrow> rebuild w s
      | Some cur \<Rightarrow>
          if length w = length cur
          then (case np_allclose1 (map2 (=) w cur) of
                  Inl e \<Rightarrow> (Inl e, s)
                | Inr close \<Rightarrow> if close then (Inr (), s) else rebuild w s)
          else rebuild w s)"

definition get_wavelengths :: "engine \<Rightarrow> real list option" where
  "get_wavelengths s = wavelengths s"

section \<open>The two queries\<close>

text \<open>The optional argument \<^verbatim>\<open>wavelengths\<close> of both queries (lines 86, 87 and 127, 128).\<close>

definition opt_set_wavelengths :: "real list option \<Rightarrow> engine \<Rightarrow> (error + unit) \<times> engine" where
  "opt_set_wavelengths wopt s = (case wopt of None \<Rightarrow> (Inr (), s) | Some w \<Rightarrow> set_wavelengths w s)"

text \<open>
  Line 89: the indices of the rows whose \<^verbatim>\<open>expnum\<close> is the one asked for; the table is
  \<^verbatim>\<open>self._atm_data\<close>, and subscripting \<^verbatim>\<open>None\<close> is a \<^verbatim>\<open>TypeError\<close>.
\<close>

definition where_expnum :: "engine \<Rightarrow> int \<Rightarrow> error + nat list" where
  "where_expnum s en =
     (case atm_data s of
        None \<Rightarrow> Inl TypeError
      | Some a \<Rightarrow> Inr (filter (\<lambda>i. expnum a ! i = en) [0..<length (expnum a)]))"

text \<open>Lines 93 to 95; \<^verbatim>\<open>ccd_index >= self.nccd\<close> with \<^verbatim>\<open>nccd\<close> still \<^verbatim>\<open>None\<close> is a \<^verbatim>\<open>TypeError\<close>.\<close>

definition check_ccd :: "engine \<Rightarrow> int \<Rightarrow> error + nat" where
  "check_ccd s ccdnum =
     (if ccdnum - 1 < 0 then Inl (ValueError (Ccdnum_out_of_range ccdnum))
      else case nccd s of
             None \<Rightarrow> Inl TypeError
           | Some n \<Rightarrow>
               if ccdnum - 1 \<ge> int n then Inl (ValueError (Ccdnum_out_of_range ccdnum))
               else Inr (nat (ccdnum - 1)))"

text \<open>Lines 97, 98 and 130, 131: \<^verbatim>\<open>band not in cache\<close>.\<close>

definition check_band :: "(string \<times> 'v) list option \<Rightarrow> string \<Rightarrow> error + 'v" where
  "check_band cache band =
     (case cache of
        None \<Rightarrow> Inl AttributeError
      | Some d \<Rightarrow>
          (case map_of d band of
             None \<Rightarrow> Inl (ValueError (Band_not_in_table band))
           | Some v \<Rightarrow> Inr v))"

text \<open>
  Lines 100 to 102: the rows \<^verbatim>\<open>throughput[u, :]\<close> of the matching exposures, each interpolated
  on the grid and clipped.
\<close>

definition atm_rows :: "engine \<Rightarrow> nat list \<Rightarrow> error + real list list" where
  "atm_rows s u =
     (case atm_data s of
        None \<Rightarrow> Inl TypeError
      | Some a \<Rightarrow>
          if list_all (\<lambda>i. i < length (throughput a)) u then Inr (map (\<lambda>i. throughput a ! i) u)
          else Inl IndexError)"

fun interp_rows :: "real list \<Rightarrow> real list list \<Rightarrow> real list option \<Rightarrow> error + real list list" where
  "interp_rows x [] wopt = Inr []"
| "interp_rows x (r # rs) wopt =
     bnd (interp1d x r) (\<lambda>ifunc.
     bnd (interp_call ifunc wopt) (\<lambda>v.
     bnd (interp_rows x rs wopt) (\<lambda>vs.
     Inr (np_clip v 0 (10 ^ 100) # vs))))"

fun mul_rows :: "real list list \<Rightarrow> real list \<Rightarrow> error + real list list" where
  "mul_rows [] c = Inr []"
| "mul_rows (r # rs) c =
     bnd (np_mul r c) (\<lambda>p. bnd (mul_rows rs c) (\<lambda>ps. Inr (p # ps)))"

text \<open>
  \<^verbatim>\<open>get_transmission\<close> after its optional call of \<^verbatim>\<open>set_wavelengths\<close> (lines 89 to 104).
  The product of line 104 is a matrix with one row for each matching exposure.
\<close>

definition transmission_body :: "string \<Rightarrow> int \<Rightarrow> int \<Rightarrow> engine \<Rightarrow> error + real list list" where
  "transmission_body band en ccdnum s =
     bnd (where_expnum s en) (\<lambda>u.
     if u = [] then Inl (ValueError (Exposure_not_found en))
     else
     bnd (check_ccd s ccdnum) (\<lambda>ccd_index.
     bnd (check_band (band_ccd_interp s) band) (\<lambda>m.
     bnd (atm_rows s u) (\<lambda>rows.
     bnd (interp_rows (atm_wavelengths s) rows (wavelengths s)) (\<lambda>atm.
     bnd (np_col m ccd_index) (\<lambda>c.
     mul_rows atm c))))))"

definition get_transmission ::
  "string \<Rightarrow> int \<Rightarrow> int \<Rightarrow> real list option \<Rightarrow> engine \<Rightarrow> (error + real list list) \<times> engine" where
  "get_transmission band en ccdnum wopt s =
     (case opt_set_wavelengths wopt s of
        (Inl e, s1) \<Rightarrow> (Inl e, s1)
      | (Inr u, s1) \<Rightarrow> (transmission_body band en ccdnum s1, s1))"

text \<open>\<^verbatim>\<open>get_std_transmission\<close> (lines 124 to 135).\<close>

definition std_body :: "string \<Rightarrow> engine \<Rightarrow> error + real list" where
  "std_body band s =
     bnd (check_band (band_tput_interp s) band) (\<lambda>t.
     bnd (case std_ifunc s of None \<Rightarrow> Inl TypeError | Some f \<Rightarrow> interp_call f (wavelengths s))
       (\<lambda>v. np_mul (np_clip v 0 (10 ^ 100)) t))"

definition ensure_std_ifunc :: "engine \<Rightarrow> (error + unit) \<times> engine" where
  "ensure_std_ifunc s =
     (case std_ifunc s of
        Some f \<Rightarrow> (Inr (), s)
      | None \<Rightarrow>
          (case interp1d (atm_wavelengths s) (atm_std s) of
             Inl e \<Rightarrow> (Inl e, s)
           | Inr f \<Rightarrow> (Inr (), s\<lparr>std_ifunc := Some f\<rparr>)))"

definition get_std_transmission ::
  "string \<Rightarrow> real list option \<Rightarrow> engine \<Rightarrow> (error + real list) \<times> engine" where
  "get_std_transmission band wopt s =
     (case ensure_std_ifunc s of
        (Inl e, s1) \<Rightarrow> (Inl e, s1)
      | (Inr u, s1) \<Rightarrow>
          (case opt_set_wavelengths wopt s1 of
             (Inl e, s2) \<Rightarrow> (Inl e, s2)
           | (Inr u, s2) \<Rightarrow> (std_body band s2, s2)))"

section \<open>Notions used in the statements\<close>

text \<open>
  The attributes that hold what was read at construction: everything except the grid, the
  two caches and the memoized interpolant of the standard atmosphere.
\<close>

definition tables_of :: "engine \<Rightarrow> (string \<times> ccd_table option) list option \<times> atm_table option \<times> string list \<times> nat option \<times> real list \<times> real list" where
  "tables_of s = (ccd_data s, atm_data s, bands s, nccd s, atm_wavelengths s, atm_std s)"


section \<open>Example inputs\<close>

text \<open>
  An instrument file with its primary unit and the five bands, each with one detector, and an
  atmosphere table with the wavelength row, the standard row and one exposure, 226650.
\<close>

definition example_table :: ccd_table where
  "example_table = \<lparr>lambda_col = [3000, 7000, 11000], throughput_avg = [0, 4 / 5, 0],
                     throughput_ccd = [[0, 9 / 10, 0]]\<rparr>"

definition example_file :: "(string \<times> ccd_table option) list" where
  "example_file = [('''', None), (''g_band'', Some example_table),
                   (''r_band'', Some example_table), (''i_band'', Some example_table),
                   (''z_band'', Some example_table), (''Y_band'', Some example_table)]"

definition example_atm :: atm_table where
  "example_atm = \<lparr>throughput = [[3000, 7000, 11000], [0, 9 / 10, 0], [0, 19 / 20, 0]],
                   expnum = [0, 0, 226650]\<rparr>"

definition example_grid :: "real list" where
  "example_grid = [3000, 7000, 11000]"

text \<open>
  Since \<^verbatim>\<open>__init__\<close> returns no object, the methods are run on an object whose attributes
  were assigned one by one. \<open>bound_engine\<close> holds what the two readers are written to store
  for the example inputs: the five tables, the rows of the exposures, the band names, the
  detector count, the atmosphere's wavelengths and the standard row; and, as lines 20 and 21
  set them, no grid and no interpolant. \<open>gridded_engine\<close> is that object after the call
  \<^verbatim>\<open>set_wavelengths\<close> of the example grid.
\<close>

definition bound_engine :: engine where
  "bound_engine =
     \<lparr>ccd_data = Some [(''g'', Some example_table), (''r'', Some example_table),
                       (''i'', Some example_table), (''z'', Some example_table),
                       (''Y'', Some example_table)],
      atm_data = Some \<lparr>throughput = [[0, 19 / 20, 0]], expnum = [226650]\<rparr>,
      bands = [''g'', ''r'', ''i'', ''z'', ''Y''], nccd = Some 1,
      atm_wavelengths = [3000, 7000, 11000], atm_std = [0, 9 / 10, 0],
      wavelengths = None, std_ifunc = None,
      band_tput_interp = None, band_ccd_interp = None\<rparr>"

definition gridded_engine :: engine where
  "gridded_engine =
     bound_engine\<lparr>wavelengths := Some example_grid,
                  band_tput_interp := Some [(''g'', [0, 4 / 5, 0])],
                  band_ccd_interp := Some [(''g'', [[0, 0, 0]])]\<rparr>"

section \<open>Construction raises\<close>



lemma init_primary: "init ((n, None) # hs) a = Inl TypeError"
  by (simp add: init_def read_ccd_file_def blank_def Let_def)

lemma init_example: "init example_file example_atm = Inl TypeError"
  by (simp add: example_file_def init_primary)

section \<open>Line 52 raises\<close>

text \<open>
  Line 52 raises in every state: the interpolant is called with two arguments, before
  \<^verbatim>\<open>np.clip\<close> is reached. So the rebuild raises as soon as there is a band and the detector count is
  not 0.
\<close>

lemma ccd_line_raises: "isl (ccd_line band j s)"
  by (simp add: ccd_line_def bnd_def interp_call2_def np_clip1_def split: sum.splits)

lemma ccd_loop_raises: "js \<noteq> [] \<Longrightarrow> isl (fst (ccd_loop band js s))"
proof (cases js)
  case Nil
  assume "js \<noteq> []"
  then show ?thesis using Nil by simp
next
  case (Cons j js')
  obtain e where "ccd_line band j s = Inl e"
    using ccd_line_raises [of band j s] by (cases "ccd_line band j s") simp_all
  then show ?thesis using Cons by simp
qed

lemma band_body_raises: "nccd s \<noteq> Some 0 \<Longrightarrow> isl (fst (band_body b s))"
  by (auto simp: band_body_def Let_def ccd_loop_raises split: sum.splits option.splits)

lemma band_loop_raises: "bs \<noteq> [] \<Longrightarrow> nccd s \<noteq> Some 0 \<Longrightarrow> isl (fst (band_loop bs s))"
proof (cases bs)
  case Nil
  assume "bs \<noteq> []"
  then show ?thesis using Nil by simp
next
  case (Cons b bs')
  assume n: "nccd s \<noteq> Some 0"
  obtain r s1 where bb: "band_body b s = (r, s1)" by (cases "band_body b s")
  have "isl r" using band_body_raises [OF n, of b] bb by simp
  then show ?thesis using Cons bb by (cases r) simp_all
qed

lemma rebuild_raises: "bands s \<noteq> [] \<Longrightarrow> nccd s \<noteq> Some 0 \<Longrightarrow> isl (fst (rebuild w s))"
  by (simp add: rebuild_def band_loop_raises)

lemma set_wavelengths_raises:
  "bands s \<noteq> [] \<Longrightarrow> nccd s \<noteq> Some 0 \<Longrightarrow> isl (fst (set_wavelengths w s))"
  by (simp add: set_wavelengths_def rebuild_raises np_allclose1_def split: option.splits)


lemma set_wavelengths_returns_only:
  "fst (set_wavelengths g s) = Inr () \<Longrightarrow> bands s = [] \<or> nccd s = Some 0"
  using set_wavelengths_raises [of s g] by auto

section \<open>What the methods leave unchanged\<close>

lemma set_col_frame:
  "tables_of (snd (set_col band j c s)) = tables_of s \<and>
   wavelengths (snd (set_col band j c s)) = wavelengths s"
  by (simp add: set_col_def tables_of_def split: option.splits)

lemma ccd_loop_frame:
  "tables_of (snd (ccd_loop band js s)) = tables_of s \<and>
   wavelengths (snd (ccd_loop band js s)) = wavelengths s"
proof (induction js arbitrary: s)
  case Nil
  show ?case by simp
next
  case (Cons j js)
  show ?case
  proof (cases "ccd_line band j s")
    case (Inl e)
    then show ?thesis by simp
  next
    case (Inr c)
    obtain r s1 where sc: "set_col band j c s = (r, s1)" by (cases "set_col band j c s")
    have f: "tables_of s1 = tables_of s \<and> wavelengths s1 = wavelengths s"
      using set_col_frame [of band j c s] sc by simp
    show ?thesis using Inr sc f Cons.IH [of s1] by (cases r) simp_all
  qed
qed

lemma band_body_frame:
  "tables_of (snd (band_body band s)) = tables_of s \<and>
   wavelengths (snd (band_body band s)) = wavelengths s"
  by (simp add: band_body_def Let_def ccd_loop_frame split: sum.splits option.splits)
     (simp add: tables_of_def)

lemma band_loop_frame:
  "tables_of (snd (band_loop bs s)) = tables_of s \<and>
   wavelengths (snd (band_loop bs s)) = wavelengths s"
proof (induction bs arbitrary: s)
  case Nil
  show ?case by simp
next
  case (Cons b bs)
  obtain r s1 where bb: "band_body b s = (r, s1)" by (cases "band_body b s")
  have f: "tables_of s1 = tables_of s \<and> wavelengths s1 = wavelengths s"
    using band_body_frame [of b s] bb by simp
  show ?case using bb f Cons.IH [of s1] by (cases r) simp_all
qed

lemma rebuild_frame:
  "tables_of (snd (rebuild w s)) = tables_of s \<and> wavelengths (snd (rebuild w s)) = Some w"
  by (simp add: rebuild_def band_loop_frame) (simp add: tables_of_def)

lemma set_wavelengths_frame: "tables_of (snd (set_wavelengths w s)) = tables_of s"
  by (simp add: set_wavelengths_def rebuild_frame np_allclose1_def split: option.splits)

lemma opt_set_wavelengths_frame: "tables_of (snd (opt_set_wavelengths wopt s)) = tables_of s"
  by (simp add: opt_set_wavelengths_def set_wavelengths_frame split: option.splits)

lemma get_transmission_frame:
  "tables_of (snd (get_transmission band en ccdnum wopt s)) = tables_of s"
proof -
  obtain r s1 where o: "opt_set_wavelengths wopt s = (r, s1)" by (cases "opt_set_wavelengths wopt s")
  have "tables_of s1 = tables_of s" using opt_set_wavelengths_frame [of wopt s] o by simp
  then show ?thesis using o by (cases r) (simp_all add: get_transmission_def)
qed

lemma ensure_std_ifunc_frame: "tables_of (snd (ensure_std_ifunc s)) = tables_of s"
  by (simp add: ensure_std_ifunc_def tables_of_def split: option.splits sum.splits)

lemma get_std_transmission_frame:
  "tables_of (snd (get_std_transmission band wopt s)) = tables_of s"
proof -
  obtain r s1 where e: "ensure_std_ifunc s = (r, s1)" by (cases "ensure_std_ifunc s")
  have f1: "tables_of s1 = tables_of s" using ensure_std_ifunc_frame [of s] e by simp
  obtain r2 s2 where o: "opt_set_wavelengths wopt s1 = (r2, s2)"
    by (cases "opt_set_wavelengths wopt s1")
  have f2: "tables_of s2 = tables_of s1" using opt_set_wavelengths_frame [of wopt s1] o by simp
  show ?thesis using e o f1 f2 by (cases r; cases r2) (simp_all add: get_std_transmission_def)
qed

lemma set_wavelengths_returns:
  "fst (set_wavelengths w s) = Inr () \<Longrightarrow> wavelengths (snd (set_wavelengths w s)) = Some w"
  by (auto simp: set_wavelengths_def rebuild_frame np_allclose1_def split: option.splits if_splits)

section \<open>The grid comparison of line 35\<close>

lemma same_length_raises:
  "wavelengths s = Some cur \<Longrightarrow> length w = length cur \<Longrightarrow>
   set_wavelengths w s = (Inl TypeError, s)"
  by (simp add: set_wavelengths_def np_allclose1_def)

section \<open>The checks of lines 89 to 98\<close>

lemma where_expnum_none:
  "atm_data s = Some a \<Longrightarrow> en \<notin> set (expnum a) \<Longrightarrow> where_expnum s en = Inr []"
  by (auto simp: where_expnum_def filter_empty_conv)

lemma where_expnum_some:
  "atm_data s = Some a \<Longrightarrow> en \<in> set (expnum a) \<Longrightarrow> \<exists>u. where_expnum s en = Inr u \<and> u \<noteq> []"
  by (auto simp: where_expnum_def filter_empty_conv in_set_conv_nth)

lemma where_expnum_frame: "atm_data s1 = atm_data s \<Longrightarrow> where_expnum s1 en = where_expnum s en"
  by (simp add: where_expnum_def)

lemma check_ccd_in_range:
  "nccd s = Some n \<Longrightarrow> 1 \<le> ccdnum \<Longrightarrow> ccdnum \<le> int n \<Longrightarrow>
   check_ccd s ccdnum = Inr (nat (ccdnum - 1))"
  by (simp add: check_ccd_def)

section \<open>The shape of the product of line 104\<close>

lemma interp_rows_length: "interp_rows x rows wopt = Inr vs \<Longrightarrow> length vs = length rows"
proof (induction rows arbitrary: vs)
  case Nil
  then show ?case by simp
next
  case (Cons r rs)
  then show ?case by (auto simp: bnd_def split: sum.splits)
qed

lemma mul_rows_length: "mul_rows rows c = Inr ps \<Longrightarrow> length ps = length rows"
proof (induction rows arbitrary: ps)
  case Nil
  then show ?case by simp
next
  case (Cons r rs)
  then show ?case by (auto simp: bnd_def split: sum.splits)
qed

lemma atm_rows_length: "atm_rows s u = Inr rows \<Longrightarrow> length rows = length u"
  by (auto simp: atm_rows_def split: option.splits if_splits)

lemma transmission_body_rows:
  assumes "transmission_body band en ccdnum s = Inr r"
  shows "\<exists>u. where_expnum s en = Inr u \<and> length r = length u"
  using assms
  by (auto simp: transmission_body_def bnd_def
      dest!: interp_rows_length mul_rows_length atm_rows_length
      split: sum.splits if_splits)

section \<open>The methods on the example object\<close>

lemma first_call: "set_wavelengths example_grid bound_engine = (Inl TypeError, gridded_engine)"
  by (simp add: set_wavelengths_def rebuild_def band_body_def tput_line_def Let_def
      bound_engine_def gridded_engine_def example_grid_def example_table_def
      ccd_line_def ccd_lookup_def np_col_def interp1d_def interp_call_def interp_call2_def
      in_bounds_def np_clip_def bnd_def)

lemma transmission_gridded:
  "get_transmission ''g'' 226650 1 None gridded_engine = (Inr [[0, 0, 0]], gridded_engine)"
  by (simp add: get_transmission_def opt_set_wavelengths_def transmission_body_def
      where_expnum_def check_ccd_def check_band_def atm_rows_def np_col_def np_mul_def
      gridded_engine_def bound_engine_def example_grid_def bnd_def interp1d_def
      interp_call_def in_bounds_def np_clip_def)

lemma std_gridded:
  "fst (get_std_transmission ''g'' None gridded_engine) = Inr [0, 18 / 25, 0]"
  by (simp add: get_std_transmission_def ensure_std_ifunc_def opt_set_wavelengths_def
      std_body_def check_band_def np_mul_def
      gridded_engine_def bound_engine_def example_grid_def bnd_def interp1d_def
      interp_call_def in_bounds_def np_clip_def)

section \<open>The claims\<close>




text \<open>
  C2. Setting the same grid a second time should return without rebuilding and without an
  error. On the example object the first call stores the grid, and the second call, with
  the same grid, raises a \<^verbatim>\<open>TypeError\<close> at line 35 and leaves the object as it was.
\<close>

theorem second_call_raises:
  "set_wavelengths example_grid bound_engine = (Inl TypeError, gridded_engine)
   \<and> get_wavelengths gridded_engine = Some example_grid
   \<and> set_wavelengths example_grid gridded_engine = (Inl TypeError, gridded_engine)"
proof -
  have w: "wavelengths gridded_engine = Some example_grid" by (simp add: gridded_engine_def)
  have "set_wavelengths example_grid gridded_engine = (Inl TypeError, gridded_engine)"
    using w by (rule same_length_raises) simp
  then show ?thesis using w by (simp add: first_call get_wavelengths_def)
qed


text \<open>
  C4. For every band, every detector number and every exposure that is not in the column
  \<^verbatim>\<open>expnum\<close> of the atmosphere table, \<^verbatim>\<open>get_transmission(band, expnum, ccdnum)\<close> raises the error of line 91, whatever the band and the
  detector number are, and leaves the object as it was.
\<close>

theorem unknown_exposure:
  assumes "atm_data s = Some a" and "en \<notin> set (expnum a)"
  shows "get_transmission band en ccdnum None s
         = (Inl (ValueError (Exposure_not_found en)), s)"
  using where_expnum_none [OF assms]
  by (simp add: get_transmission_def opt_set_wavelengths_def transmission_body_def bnd_def)

theorem unknown_exposure_witness:
  "atm_data bound_engine = Some \<lparr>throughput = [[0, 19 / 20, 0]], expnum = [226650]\<rparr>
   \<and> 1000000 \<notin> set (expnum \<lparr>throughput = [[0 :: real, 19 / 20, 0]], expnum = [226650]\<rparr>)
   \<and> get_transmission ''k'' 1000000 100 None bound_engine
       = (Inl (ValueError (Exposure_not_found 1000000)), bound_engine)"
proof -
  have a: "atm_data bound_engine = Some \<lparr>throughput = [[0, 19 / 20, 0]], expnum = [226650]\<rparr>"
    by (simp add: bound_engine_def)
  have e: "1000000 \<notin> set (expnum \<lparr>throughput = [[0 :: real, 19 / 20, 0]], expnum = [226650]\<rparr>)"
    by simp
  show ?thesis using a e unknown_exposure [OF a e, of "''k''" 100] by simp
qed

text \<open>
  C5. For an exposure of the atmosphere table and a detector number outside 1 to
  \<^verbatim>\<open>nccd\<close>, \<^verbatim>\<open>get_transmission(band, expnum, ccdnum)\<close> raises the error of line 95, whatever the band is, and leaves the object as it
  was.
\<close>

theorem detector_out_of_range:
  assumes "atm_data s = Some a" and "en \<in> set (expnum a)" and "nccd s = Some n"
    and "ccdnum < 1 \<or> int n < ccdnum"
  shows "get_transmission band en ccdnum None s
         = (Inl (ValueError (Ccdnum_out_of_range ccdnum)), s)"
proof -
  obtain u where u: "where_expnum s en = Inr u" "u \<noteq> []"
    using where_expnum_some [OF assms(1,2)] by blast
  have c: "check_ccd s ccdnum = Inl (ValueError (Ccdnum_out_of_range ccdnum))"
    using assms(3,4) by (auto simp: check_ccd_def)
  show ?thesis using u c
    by (simp add: get_transmission_def opt_set_wavelengths_def transmission_body_def bnd_def)
qed

theorem detector_out_of_range_witness:
  "atm_data bound_engine = Some \<lparr>throughput = [[0, 19 / 20, 0]], expnum = [226650]\<rparr>
   \<and> 226650 \<in> set (expnum \<lparr>throughput = [[0 :: real, 19 / 20, 0]], expnum = [226650]\<rparr>)
   \<and> nccd bound_engine = Some 1
   \<and> ((2 :: int) < 1 \<or> int 1 < 2)
   \<and> get_transmission ''k'' 226650 2 None bound_engine
       = (Inl (ValueError (Ccdnum_out_of_range 2)), bound_engine)"
proof -
  have a: "atm_data bound_engine = Some \<lparr>throughput = [[0, 19 / 20, 0]], expnum = [226650]\<rparr>"
    by (simp add: bound_engine_def)
  have e: "226650 \<in> set (expnum \<lparr>throughput = [[0 :: real, 19 / 20, 0]], expnum = [226650]\<rparr>)"
    by simp
  have n: "nccd bound_engine = Some 1" by (simp add: bound_engine_def)
  have c: "(2 :: int) < 1 \<or> int 1 < 2" by simp
  show ?thesis using a e n c detector_out_of_range [OF a e n c, of "''k''"] by simp
qed

text \<open>
  C6. A band that was not loaded should give the error of lines 98 and 131 from both
  queries. On the example object, which has no grid yet, both raise an \<^verbatim>\<open>AttributeError\<close>: the
  caches they look into are assigned only by \<^verbatim>\<open>set_wavelengths\<close>. Once that method has been called,
  both raise the error the claim states.
\<close>

theorem unknown_band_attribute_error:
  "''k'' \<notin> set (bands bound_engine)
   \<and> get_transmission ''k'' 226650 1 None bound_engine = (Inl AttributeError, bound_engine)
   \<and> fst (get_std_transmission ''k'' None bound_engine) = Inl AttributeError
   \<and> get_transmission ''k'' 226650 1 None gridded_engine
       = (Inl (ValueError (Band_not_in_table ''k'')), gridded_engine)
   \<and> fst (get_std_transmission ''k'' None gridded_engine)
       = Inl (ValueError (Band_not_in_table ''k''))"
  by (simp add: get_transmission_def opt_set_wavelengths_def transmission_body_def
      where_expnum_def check_ccd_def check_band_def bnd_def
      get_std_transmission_def ensure_std_ifunc_def std_body_def interp1d_def
      gridded_engine_def bound_engine_def)


text \<open>
  C8. The value returned should be a sequence as long as the grid. What \<^verbatim>\<open>get_transmission\<close>
  returns has one row for each row of the atmosphere table with the exposure asked for: on the
  example object, with a grid of three wavelengths and one such row, its length is 1.
\<close>

theorem transmission_rows:
  assumes "where_expnum s en = Inr u"
    and "fst (get_transmission band en ccdnum wopt s) = Inr r"
  shows "length r = length u"
proof -
  obtain r1 s1 where o: "opt_set_wavelengths wopt s = (r1, s1)"
    by (cases "opt_set_wavelengths wopt s")
  have f: "atm_data s1 = atm_data s"
    using opt_set_wavelengths_frame [of wopt s] o by (simp add: tables_of_def)
  have b: "transmission_body band en ccdnum s1 = Inr r"
    using assms(2) o by (cases r1) (simp_all add: get_transmission_def)
  obtain u1 where "where_expnum s1 en = Inr u1" and l: "length r = length u1"
    using transmission_body_rows [OF b] by blast
  then have "u1 = u" using assms(1) where_expnum_frame [OF f, of en] by simp
  then show ?thesis using l by simp
qed

theorem transmission_rows_witness:
  "where_expnum gridded_engine 226650 = Inr [0]
   \<and> fst (get_transmission ''g'' 226650 1 None gridded_engine) = Inr [[0, 0, 0]]
   \<and> length [[0 :: real, 0, 0]] = length [0 :: nat]
   \<and> get_wavelengths gridded_engine = Some example_grid
   \<and> length example_grid = 3"
proof -
  have w: "where_expnum gridded_engine 226650 = Inr [0]"
    by (simp add: where_expnum_def gridded_engine_def bound_engine_def)
  have g: "fst (get_transmission ''g'' 226650 1 None gridded_engine) = Inr [[0, 0, 0]]"
    by (simp add: transmission_gridded)
  show ?thesis using w g transmission_rows [OF w g]
    by (simp add: get_wavelengths_def gridded_engine_def example_grid_def)
qed

text \<open>
  C9. On a freshly built engine with the bands g, r, i, z and Y, one detector and exposure
  226650 in the table, \<^verbatim>\<open>get_transmission("g", 226650, 1)\<close> should succeed on a default grid. The
  constructor raises on the example file. On the object that holds the tables there is no
  grid, and the call raises an \<^verbatim>\<open>AttributeError\<close>.
\<close>

theorem scenario_constructor_raises:
  "init example_file example_atm = Inl TypeError
   \<and> get_wavelengths bound_engine = None
   \<and> get_transmission ''g'' 226650 1 None bound_engine = (Inl AttributeError, bound_engine)"
  by (simp add: init_example)
     (simp add: get_wavelengths_def get_transmission_def opt_set_wavelengths_def
        transmission_body_def where_expnum_def check_ccd_def check_band_def bnd_def
        bound_engine_def)

text \<open>
  C10. Neither query changes what was read at construction, whether it returns or raises:
  the only attributes a query assigns are the grid, the two caches and the memoized
  interpolant. \<^verbatim>\<open>get_wavelengths\<close> assigns nothing: it is the value of an attribute.
\<close>

theorem queries_keep_tables:
  "tables_of (snd (get_transmission band en ccdnum wopt s)) = tables_of s
   \<and> tables_of (snd (get_std_transmission band wopt s)) = tables_of s"
  by (simp add: get_transmission_frame get_std_transmission_frame)

end
